theory Spec2Isabelle
  imports Main "HOL-Library.Char_ord" "HOL-Library.List_Lexorder"
begin

section \<open>Python values handled by the meal planning server\<close>

text \<open>
  The server receives the upstream response through \<^verbatim>\<open>response.json()\<close> and builds its
  preference and envelope dictionaries from \<^verbatim>\<open>Optional[int]\<close> and \<^verbatim>\<open>Optional[str]\<close>
  arguments, so every value the program touches is one that \<^verbatim>\<open>json.loads\<close> can produce.
  A \<^verbatim>\<open>str\<close> is held as the list of its UTF-8 bytes: concatenation and the replacement
  of the ASCII letter Z act on the bytes as they act on the code points, and the
  lexicographic order of the bytes is the order of the code points that \<^verbatim>\<open>sorted\<close>
  uses. A \<^verbatim>\<open>dict\<close> is an association list in insertion order, whose keys are distinct.
  A \<^verbatim>\<open>float\<close> is held as the two observations the program makes of it: whether it is
  zero (its truth value) and the text \<^verbatim>\<open>repr\<close> gives for it.
\<close>

datatype pyfloat = PyFloat (float_is_zero: bool) (float_repr: string)

datatype json =
    JNull
  | JBool bool
  | JInt int
  | JFloat pyfloat
  | JStr string
  | JList "json list"
  | JObj "(string \<times> json) list"

text \<open>
  The exceptions of the program. \<open>RuntimeError\<close> and \<open>ValueError\<close> carry the message the
  source gives them; \<open>RequestException\<close>, \<open>HTTPError\<close> and \<open>JSONDecodeError\<close> are raised
  inside the \<^verbatim>\<open>requests\<close> library with a message of its own; \<open>RecursionError\<close> comes
  from the interpreter; \<open>SystemExit\<close> is how \<^verbatim>\<open>argparse\<close> rejects a command line.
\<close>

datatype py_error =
    RuntimeError string
  | ValueError string
  | AttributeError string
  | TypeError string
  | KeyError string
  | RequestException string
  | HTTPError string
  | JSONDecodeError string
  | RecursionError string
  | SystemExit nat

text \<open>A text between single quotes, as Python's messages show names.\<close>

definition quoted :: "string \<Rightarrow> string" where
  "quoted s = [CHR 0x27] @ s @ [CHR 0x27]"

fun type_name :: "json \<Rightarrow> string" where
  "type_name JNull = ''NoneType''"
| "type_name (JBool b) = ''bool''"
| "type_name (JInt i) = ''int''"
| "type_name (JFloat f) = ''float''"
| "type_name (JStr s) = ''str''"
| "type_name (JList xs) = ''list''"
| "type_name (JObj kvs) = ''dict''"

text \<open>\<^verbatim>\<open>str(error)\<close>: the message of an exception; for a \<open>KeyError\<close> the quoted key
  (the keys this program subscripts with are plain identifiers).\<close>

fun error_str :: "py_error \<Rightarrow> string" where
  "error_str (RuntimeError m) = m"
| "error_str (ValueError m) = m"
| "error_str (AttributeError m) = m"
| "error_str (TypeError m) = m"
| "error_str (KeyError k) = quoted k"
| "error_str (RequestException m) = m"
| "error_str (HTTPError m) = m"
| "error_str (JSONDecodeError m) = m"
| "error_str (RecursionError m) = m"
| "error_str (SystemExit n) = []"

subsection \<open>Truth values, dictionary access, iteration\<close>

text \<open>\<^verbatim>\<open>if v:\<close>\<close>

fun truthy :: "json \<Rightarrow> bool" where
  "truthy JNull = False"
| "truthy (JBool b) = b"
| "truthy (JInt i) = (i \<noteq> 0)"
| "truthy (JFloat f) = (\<not> float_is_zero f)"
| "truthy (JStr s) = (s \<noteq> [])"
| "truthy (JList xs) = (xs \<noteq> [])"
| "truthy (JObj kvs) = (kvs \<noteq> [])"

text \<open>\<^verbatim>\<open>v.get(key, default)\<close>: only a dict has the method.\<close>

fun py_get :: "json \<Rightarrow> string \<Rightarrow> json \<Rightarrow> py_error + json" where
  "py_get (JObj kvs) k d = Inr (case map_of kvs k of None \<Rightarrow> d | Some v \<Rightarrow> v)"
| "py_get v k d = Inl (AttributeError (quoted (type_name v) @ '' object has no attribute '' @ quoted ''get''))"

text \<open>\<^verbatim>\<open>v[key]\<close> with a string key.\<close>

fun py_getitem :: "json \<Rightarrow> string \<Rightarrow> py_error + json" where
  "py_getitem (JObj kvs) k = (case map_of kvs k of None \<Rightarrow> Inl (KeyError k) | Some v \<Rightarrow> Inr v)"
| "py_getitem (JList xs) k = Inl (TypeError ''list indices must be integers or slices, not str'')"
| "py_getitem (JStr s) k = Inl (TypeError (''string indices must be integers, not '' @ quoted ''str''))"
| "py_getitem v k = Inl (TypeError (quoted (type_name v) @ '' object is not subscriptable''))"

text \<open>\<^verbatim>\<open>d[key] = value\<close> on an insertion-ordered dict: an existing key keeps its place.\<close>

fun dict_set :: "(string \<times> 'v) list \<Rightarrow> string \<Rightarrow> 'v \<Rightarrow> (string \<times> 'v) list" where
  "dict_set [] k v = [(k, v)]"
| "dict_set ((k', v') # kvs) k v = (if k' = k then (k, v) # kvs else (k', v') # dict_set kvs k v)"

text \<open>The number of bytes of the UTF-8 character that starts with the given byte.\<close>

definition utf8_len :: "char \<Rightarrow> nat" where
  "utf8_len c =
     (let n = (of_char c :: nat) in
      if n < 0xC0 then 1 else if n < 0xE0 then 2 else if n < 0xF0 then 3 else 4)"

function utf8_chars :: "string \<Rightarrow> string list" where
  "utf8_chars [] = []"
| "utf8_chars (c # cs) =
     (c # take (utf8_len c - 1) cs) # utf8_chars (drop (utf8_len c - 1) cs)"
  by pat_completeness auto
termination
  by (relation "measure length") auto

text \<open>\<^verbatim>\<open>for item in v\<close>: the items visited, or the \<open>TypeError\<close> of a value that is not
  iterable. A str yields its characters, a dict its keys.\<close>

fun py_iter :: "json \<Rightarrow> py_error + json list" where
  "py_iter (JList xs) = Inr xs"
| "py_iter (JObj kvs) = Inr (map (\<lambda>kv. JStr (fst kv)) kvs)"
| "py_iter (JStr s) = Inr (map JStr (utf8_chars s))"
| "py_iter v = Inl (TypeError (quoted (type_name v) @ '' object is not iterable''))"

subsection \<open>Text\<close>

definition digit_chars :: string where
  "digit_chars = ''0123456789''"

function str_nat :: "nat \<Rightarrow> string" where
  "str_nat n = (if n < 10 then [digit_chars ! n] else str_nat (n div 10) @ [digit_chars ! (n mod 10)])"
  by pat_completeness auto
termination
  by (relation "measure id") auto

text \<open>The decimal numeral of an int.\<close>

definition decimal :: "int \<Rightarrow> string" where
  "decimal i = (if i < 0 then CHR ''-'' # str_nat (nat (- i)) else str_nat (nat i))"

text \<open>
  \<^verbatim>\<open>str(i)\<close> for an int, under the interpreter's limit on the digits of a conversion
  (\<^verbatim>\<open>sys.get_int_max_str_digits()\<close>: 4300 by default, 0 for no limit, never between 1
  and 639): an int with more digits than the limit, the sign not counted, raises
  \<open>ValueError\<close>.
\<close>

definition str_int :: "nat \<Rightarrow> int \<Rightarrow> py_error + string" where
  "str_int max_str_digits i =
     (if 0 < max_str_digits \<and> max_str_digits < length (str_nat (nat \<bar>i\<bar>)) then
        Inl (ValueError (''Exceeds the limit ('' @ str_nat max_str_digits
               @ '' digits) for integer string conversion; ''
               @ ''use sys.set_int_max_str_digits() to increase the limit''))
      else Inr (decimal i))"

text \<open>\<^verbatim>\<open>sep.join(xs)\<close>\<close>

fun join :: "string \<Rightarrow> string list \<Rightarrow> string" where
  "join sep [] = []"
| "join sep [x] = x"
| "join sep (x # y # ys) = x @ sep @ join sep (y # ys)"

definition nl :: string where
  "nl = [CHR 0x0A]"

text \<open>
  The characters \<^verbatim>\<open>str.strip()\<close> removes, as UTF-8: U+0009 to U+000D, U+001C to U+0020,
  U+0085, U+00A0, U+1680, U+2000 to U+200A, U+2028, U+2029, U+202F, U+205F, U+3000.
\<close>

definition py_whitespace :: "string list" where
  "py_whitespace =
     map (\<lambda>c. [c]) [CHR 0x09, CHR 0x0A, CHR 0x0B, CHR 0x0C, CHR 0x0D,
                     CHR 0x1C, CHR 0x1D, CHR 0x1E, CHR 0x1F, CHR 0x20] @
     [[CHR 0xC2, CHR 0x85], [CHR 0xC2, CHR 0xA0], [CHR 0xE1, CHR 0x9A, CHR 0x80]] @
     map (\<lambda>c. [CHR 0xE2, CHR 0x80, c])
       [CHR 0x80, CHR 0x81, CHR 0x82, CHR 0x83, CHR 0x84, CHR 0x85, CHR 0x86, CHR 0x87,
        CHR 0x88, CHR 0x89, CHR 0x8A, CHR 0xA8, CHR 0xA9, CHR 0xAF] @
     [[CHR 0xE2, CHR 0x81, CHR 0x9F], [CHR 0xE3, CHR 0x80, CHR 0x80]]"

text \<open>Remove, as long as there is one, a leading occurrence of one of the patterns.\<close>

function strip_front :: "string list \<Rightarrow> string \<Rightarrow> string" where
  "strip_front pats s =
     (case find (\<lambda>p. p \<noteq> [] \<and> take (length p) s = p) pats of
        None \<Rightarrow> s
      | Some p \<Rightarrow> strip_front pats (drop (length p) s))"
  by pat_completeness auto
termination
proof (relation "measure (\<lambda>(pats, s). length s)")
  show "wf (measure (\<lambda>(pats, s). length s))"
    by simp
next
  fix pats :: "string list" and s p :: string
  assume "find (\<lambda>p. p \<noteq> [] \<and> take (length p) s = p) pats = Some p"
  then have "p \<noteq> []" and "take (length p) s = p"
    by (auto simp: find_Some_iff)
  then have "s \<noteq> []" and "0 < length p"
    by auto
  then show "((pats, drop (length p) s), (pats, s)) \<in> measure (\<lambda>(pats, s). length s)"
    by simp
qed

definition lstrip :: "string \<Rightarrow> string" where
  "lstrip s = strip_front py_whitespace s"

definition rstrip :: "string \<Rightarrow> string" where
  "rstrip s = rev (strip_front (map rev py_whitespace) (rev s))"

text \<open>\<^verbatim>\<open>s.strip()\<close>\<close>

definition strip :: "string \<Rightarrow> string" where
  "strip s = lstrip (rstrip s)"

text \<open>\<^verbatim>\<open>s.replace("Z", "+00:00")\<close>: every Z of the string is replaced.\<close>

definition replace_Z :: "string \<Rightarrow> string" where
  "replace_Z s = concat (map (\<lambda>c. if c = CHR ''Z'' then ''+00:00'' else [c]) s)"

section \<open>Dates\<close>

text \<open>
  A \<^verbatim>\<open>datetime\<close> object. Its fields are in range by the class's own invariant
  (\<open>1 \<le> dt_month \<le> 12\<close>, \<open>1 \<le> dt_day\<close>, \<open>1 \<le> dt_year \<le> 9999\<close>).
\<close>

record datetime =
  dt_year :: nat
  dt_month :: nat
  dt_day :: nat
  dt_hour :: nat
  dt_minute :: nat
  dt_second :: nat
  dt_microsecond :: nat
  dt_utcoffset :: "int option"

definition is_leap :: "nat \<Rightarrow> bool" where
  "is_leap y = (y mod 4 = 0 \<and> (y mod 100 \<noteq> 0 \<or> y mod 400 = 0))"

definition days_before_year :: "nat \<Rightarrow> nat" where
  "days_before_year year = (let y = year - 1 in y * 365 + y div 4 - y div 100 + y div 400)"

definition days_before_month :: "nat \<Rightarrow> nat \<Rightarrow> nat" where
  "days_before_month year month =
     [0, 31, 59, 90, 120, 151, 181, 212, 243, 273, 304, 334] ! (month - 1)
       + (if 2 < month \<and> is_leap year then 1 else 0)"

definition ymd2ord :: "nat \<Rightarrow> nat \<Rightarrow> nat \<Rightarrow> nat" where
  "ymd2ord year month day = days_before_year year + days_before_month year month + day"

text \<open>\<^verbatim>\<open>dt.weekday()\<close>: Monday is 0.\<close>

definition weekday :: "datetime \<Rightarrow> nat" where
  "weekday dt = (ymd2ord (dt_year dt) (dt_month dt) (dt_day dt) + 6) mod 7"

definition day_names :: "string list" where
  "day_names = [''Monday'', ''Tuesday'', ''Wednesday'', ''Thursday'', ''Friday'', ''Saturday'',
     ''Sunday'']"

definition month_names :: "string list" where
  "month_names = [''January'', ''February'', ''March'', ''April'', ''May'', ''June'', ''July'',
     ''August'', ''September'', ''October'', ''November'', ''December'']"

definition two_digits :: "nat \<Rightarrow> string" where
  "two_digits n = (if n < 10 then CHR ''0'' # str_nat n else str_nat n)"

text \<open>
  \<^verbatim>\<open>dt.strftime("%A, %B %d %Y")\<close> in the C locale: weekday name, month name, the day in
  two digits, the year in decimal.
\<close>

definition strftime_long :: "datetime \<Rightarrow> string" where
  "strftime_long dt =
     day_names ! weekday dt @ '', '' @ month_names ! (dt_month dt - 1) @ '' ''
       @ two_digits (dt_day dt) @ '' '' @ str_nat (dt_year dt)"

section \<open>The process and its surroundings\<close>

record request =
  req_url :: string
  req_params :: "(string \<times> json) list"
  req_timeout :: nat

text \<open>
  A response as the program observes it: the status, the message \<^verbatim>\<open>raise_for_status\<close>
  raises with, and what \<^verbatim>\<open>response.json()\<close> gives (\<open>Inl\<close>: the body is not JSON).
\<close>

record response =
  status_code :: nat
  status_message :: string
  body_json :: "string + json"

datatype http_outcome = NoResponse string | Got response

text \<open>
  What one invocation finds around it: the value of the environment variable
  \<^verbatim>\<open>SPOONACULAR_API_KEY\<close> (\<open>None\<close>: not set), the reading of \<^verbatim>\<open>datetime.utcnow()\<close>
  when the formatter runs, the library function \<^verbatim>\<open>datetime.fromisoformat\<close> (\<open>None\<close>: it
  raises), the interpreter's limit on the digits of an int conversion, the interpreter's
  \<^verbatim>\<open>repr\<close> of a list or a dict (which depends on its Unicode tables and raises beyond its
  recursion limit or on an int beyond the digit limit), and the remote answer to a GET
  request.
\<close>

record runtime =
  rt_getenv_api_key :: "string option"
  rt_utcnow :: datetime
  rt_fromisoformat :: "string \<Rightarrow> datetime option"
  rt_int_max_str_digits :: nat
  rt_repr_container :: "json \<Rightarrow> py_error + string"
  rt_http_get :: "request \<Rightarrow> http_outcome"

text \<open>
  \<^verbatim>\<open>str(v)\<close>, which is also what an f-string field \<^verbatim>\<open>{v}\<close> inserts: a str is itself, a
  list or a dict is its \<^verbatim>\<open>repr\<close>.
\<close>

fun py_str :: "runtime \<Rightarrow> json \<Rightarrow> py_error + string" where
  "py_str rt (JStr s) = Inr s"
| "py_str rt JNull = Inr ''None''"
| "py_str rt (JBool b) = Inr (if b then ''True'' else ''False'')"
| "py_str rt (JInt i) = str_int (rt_int_max_str_digits rt) i"
| "py_str rt (JFloat f) = Inr (float_repr f)"
| "py_str rt (JList xs) = rt_repr_container rt (JList xs)"
| "py_str rt (JObj kvs) = rt_repr_container rt (JObj kvs)"

text \<open>The effect of the program on the outside: the HTTP requests issued, in order.\<close>

record world =
  sent :: "request list"

text \<open>\<^verbatim>\<open>os.getenv("SPOONACULAR_API_KEY", "")\<close>\<close>

definition SPOONACULAR_API_KEY :: "runtime \<Rightarrow> string" where
  "SPOONACULAR_API_KEY rt = (case rt_getenv_api_key rt of None \<Rightarrow> [] | Some k \<Rightarrow> k)"

definition SPOONACULAR_BASE_URL :: string where
  "SPOONACULAR_BASE_URL = ''https://api.spoonacular.com''"

section \<open>The API client\<close>

definition call_spoonacular ::
  "runtime \<Rightarrow> world \<Rightarrow> string \<Rightarrow> (string \<times> json) list \<Rightarrow> (py_error + json) \<times> world" where
  "call_spoonacular rt w endpoint params =
     (if SPOONACULAR_API_KEY rt = [] then
        (Inl (RuntimeError ''SPOONACULAR_API_KEY environment variable is not set.''), w)
      else
        let params' = dict_set params ''apiKey'' (JStr (SPOONACULAR_API_KEY rt));
            req = \<lparr>req_url = SPOONACULAR_BASE_URL @ endpoint, req_params = params',
                   req_timeout = 30\<rparr>;
            w' = w\<lparr>sent := sent w @ [req]\<rparr>
        in case rt_http_get rt req of
             NoResponse m \<Rightarrow> (Inl (RequestException m), w')
           | Got resp \<Rightarrow>
               if 400 \<le> status_code resp \<and> status_code resp < 600 then
                 (Inl (HTTPError (status_message resp)), w')
               else (case body_json resp of
                       Inl m \<Rightarrow> (Inl (JSONDecodeError m), w')
                     | Inr j \<Rightarrow> (Inr j, w')))"

section \<open>The plan formatter\<close>

text \<open>
  The pieces of the report are lists of lines; the first piece that raises decides.
  Each piece takes the conversion \<open>to_str\<close> that its f-strings apply, which
  \<open>format_meal_plan\<close> instantiates with \<open>py_str\<close>.
\<close>

fun seq_lines :: "(py_error + string list) list \<Rightarrow> py_error + string list" where
  "seq_lines [] = Inr []"
| "seq_lines (Inl e # ps) = Inl e"
| "seq_lines (Inr ls # ps) = (case seq_lines ps of Inl e \<Rightarrow> Inl e | Inr ms \<Rightarrow> Inr (ls @ ms))"

text \<open>The one line \<^verbatim>\<open>f"<pre>{v}<suf>"\<close>, where \<open>converted\<close> is the conversion of \<open>v\<close>.\<close>

definition fline :: "string \<Rightarrow> py_error + string \<Rightarrow> string \<Rightarrow> py_error + string list" where
  "fline pre converted suf =
     (case converted of Inl e \<Rightarrow> Inl e | Inr s \<Rightarrow> Inr [pre @ s @ suf])"

text \<open>The display date of lines 53 to 62, as the value the f-string inserts.\<close>

definition readable_date :: "runtime \<Rightarrow> json \<Rightarrow> json" where
  "readable_date rt event_date =
     (if truthy event_date then
        (case event_date of
           JStr s \<Rightarrow>
             (case rt_fromisoformat rt (replace_Z s) of
                Some dt \<Rightarrow> JStr (strftime_long dt)
              | None \<Rightarrow> event_date)
         | _ \<Rightarrow> event_date)
      else JStr (strftime_long (rt_utcnow rt)))"

definition header_lines :: "runtime \<Rightarrow> json \<Rightarrow> py_error + string list" where
  "header_lines rt preferences =
     (case py_get preferences ''eventDate'' JNull of
        Inl e \<Rightarrow> Inl e
      | Inr event_date \<Rightarrow>
          seq_lines
            [Inr [''WEEKLY MEAL PLAN''],
             fline ''Generated: '' (py_str rt (readable_date rt event_date)) nl])"

text \<open>\<^verbatim>\<open>if d.get(key): lines.append(f"<pre>{d[key]}<suf>")\<close>\<close>

definition field_line ::
  "(json \<Rightarrow> py_error + string) \<Rightarrow> json \<Rightarrow> string \<Rightarrow> string \<Rightarrow> string
     \<Rightarrow> py_error + string list" where
  "field_line to_str d key pre suf =
     (case py_get d key JNull of
        Inl e \<Rightarrow> Inl e
      | Inr v \<Rightarrow>
          if truthy v then
            (case py_getitem d key of Inl e \<Rightarrow> Inl e | Inr x \<Rightarrow> fline pre (to_str x) suf)
          else Inr [])"

definition rule50 :: string where
  "rule50 = replicate 50 CHR ''=''"

definition rule30 :: string where
  "rule30 = replicate 30 CHR ''-''"

definition preference_lines ::
  "(json \<Rightarrow> py_error + string) \<Rightarrow> json \<Rightarrow> py_error + string list" where
  "preference_lines to_str preferences =
     seq_lines
       [field_line to_str preferences ''familySize'' ''Family Size: '' [],
        field_line to_str preferences ''diet'' ''Dietary Preference: '' [],
        field_line to_str preferences ''exclude'' ''Exclusions: '' [],
        field_line to_str preferences ''targetCalories'' ''Daily Calorie Target: '' [],
        Inr [nl @ rule50 @ nl]]"

text \<open>\<^verbatim>\<open>grouped.setdefault(day, []).append(meal)\<close>\<close>

fun setdefault_append ::
  "string \<Rightarrow> json \<Rightarrow> (string \<times> json list) list \<Rightarrow> (string \<times> json list) list" where
  "setdefault_append day meal [] = [(day, [meal])]"
| "setdefault_append day meal ((k, ms) # grouped) =
     (if k = day then (k, ms @ [meal]) # grouped
      else (k, ms) # setdefault_append day meal grouped)"

text \<open>The loop of lines 80 to 82.\<close>

fun group_meals ::
  "(json \<Rightarrow> py_error + string) \<Rightarrow> json list \<Rightarrow> (string \<times> json list) list
     \<Rightarrow> py_error + (string \<times> json list) list" where
  "group_meals to_str [] grouped = Inr grouped"
| "group_meals to_str (meal # meals) grouped =
     (case py_get meal ''day'' (JStr ''Unknown'') of
        Inl e \<Rightarrow> Inl e
      | Inr d \<Rightarrow>
          (case to_str d of
             Inl e \<Rightarrow> Inl e
           | Inr day \<Rightarrow> group_meals to_str meals (setdefault_append day meal grouped)))"

text \<open>The plate emoji of the meal's header line (U+1F37D U+FE0F) and the check box
  of a grocery line (U+2611).\<close>

definition plate :: string where
  "plate = [CHR 0xF0, CHR 0x9F, CHR 0x8D, CHR 0xBD, CHR 0xEF, CHR 0xB8, CHR 0x8F]"

definition checkbox :: string where
  "checkbox = [CHR 0xE2, CHR 0x98, CHR 0x91]"

definition meal_block ::
  "(json \<Rightarrow> py_error + string) \<Rightarrow> json \<Rightarrow> py_error + string list" where
  "meal_block to_str meal =
     seq_lines
       [case py_get meal ''title'' (JStr ''Untitled Meal'') of
          Inl e \<Rightarrow> Inl e
        | Inr title \<Rightarrow> fline (plate @ '' '') (to_str title) [],
        field_line to_str meal ''readyInMinutes'' ''   Ready in: '' '' minutes'',
        field_line to_str meal ''servings'' ''   Servings: '' [],
        field_line to_str meal ''id'' ''   Recipe URL: https://spoonacular.com/recipes/-'' [],
        Inr [[]]]"

definition day_block ::
  "(json \<Rightarrow> py_error + string) \<Rightarrow> (string \<times> json list) list \<Rightarrow> string
     \<Rightarrow> py_error + string list" where
  "day_block to_str grouped day =
     (case map_of grouped day of
        None \<Rightarrow> Inl (KeyError day)
      | Some ms \<Rightarrow>
          seq_lines (Inr [''DAY '' @ day, rule30] # map (meal_block to_str) ms @ [Inr [[]]]))"

definition meal_lines ::
  "(json \<Rightarrow> py_error + string) \<Rightarrow> json \<Rightarrow> py_error + string list" where
  "meal_lines to_str meal_plan =
     (case py_get meal_plan ''meals'' JNull of
        Inl e \<Rightarrow> Inl e
      | Inr meals \<Rightarrow>
          (case meals of
             JList ms \<Rightarrow>
               (case group_meals to_str ms [] of
                  Inl e \<Rightarrow> Inl e
                | Inr grouped \<Rightarrow>
                    seq_lines (map (day_block to_str grouped) (sort (map fst grouped))))
           | _ \<Rightarrow> Inr []))"

definition nutrient_line ::
  "(json \<Rightarrow> py_error + string) \<Rightarrow> json \<Rightarrow> string \<Rightarrow> string \<Rightarrow> string
     \<Rightarrow> py_error + string list" where
  "nutrient_line to_str nutrients pre key suf =
     (case py_get nutrients key (JStr ''N/A'') of
        Inl e \<Rightarrow> Inl e
      | Inr v \<Rightarrow> fline pre (to_str v) suf)"

definition nutrient_lines ::
  "(json \<Rightarrow> py_error + string) \<Rightarrow> json \<Rightarrow> py_error + string list" where
  "nutrient_lines to_str meal_plan =
     (case py_get meal_plan ''nutrients'' JNull of
        Inl e \<Rightarrow> Inl e
      | Inr nutrients \<Rightarrow>
          if truthy nutrients then
            seq_lines
              [Inr [rule50, ''NUTRITION SUMMARY'', rule30],
               nutrient_line to_str nutrients ''Calories: '' ''calories'' [],
               nutrient_line to_str nutrients ''Protein: '' ''protein'' ''g'',
               nutrient_line to_str nutrients ''Fat: '' ''fat'' ''g'',
               nutrient_line to_str nutrients ''Carbohydrates: '' ''carbohydrates'' ''g'']
          else Inr [])"

definition item_line ::
  "(json \<Rightarrow> py_error + string) \<Rightarrow> json \<Rightarrow> py_error + string list" where
  "item_line to_str item =
     (case py_get item ''name'' (JStr ''Unnamed Item'') of
        Inl e \<Rightarrow> Inl e
      | Inr name \<Rightarrow>
          (case py_get item ''aisle'' JNull of
             Inl e \<Rightarrow> Inl e
           | Inr aisle \<Rightarrow>
               if truthy aisle then
                 (case to_str name of
                    Inl e \<Rightarrow> Inl e
                  | Inr n \<Rightarrow> fline (checkbox @ '' '' @ n @ '' ('') (to_str aisle) '')'')
               else fline (checkbox @ '' '') (to_str name) []))"

definition grocery_lines ::
  "(json \<Rightarrow> py_error + string) \<Rightarrow> json \<Rightarrow> py_error + string list" where
  "grocery_lines to_str meal_plan =
     (case py_get meal_plan ''items'' JNull of
        Inl e \<Rightarrow> Inl e
      | Inr items \<Rightarrow>
          if truthy items then
            (case py_iter items of
               Inl e \<Rightarrow> Inl e
             | Inr xs \<Rightarrow>
                 seq_lines
                   (Inr [nl @ rule50, ''GROCERY LIST'', rule30] # map (item_line to_str) xs))
          else Inr [])"

text \<open>The list \<^verbatim>\<open>lines\<close> at line 123, before it is joined.\<close>

definition report_lines :: "runtime \<Rightarrow> json \<Rightarrow> json \<Rightarrow> py_error + string list" where
  "report_lines rt meal_plan preferences =
     seq_lines
       [header_lines rt preferences,
        preference_lines (py_str rt) preferences,
        meal_lines (py_str rt) meal_plan,
        nutrient_lines (py_str rt) meal_plan,
        grocery_lines (py_str rt) meal_plan]"

definition format_meal_plan :: "runtime \<Rightarrow> json \<Rightarrow> json \<Rightarrow> py_error + string" where
  "format_meal_plan rt meal_plan preferences =
     (case report_lines rt meal_plan preferences of
        Inl e \<Rightarrow> Inl e
      | Inr lines \<Rightarrow> Inr (strip (join nl lines)))"

section \<open>Plan generation and the two entry points\<close>

record plan_args =
  time_frame :: string
  target_calories :: "int option"
  diet :: "string option"
  exclude :: "string option"
  family_size :: "int option"
  event_date :: "string option"

definition opt_int :: "int option \<Rightarrow> json" where
  "opt_int x = (case x of None \<Rightarrow> JNull | Some i \<Rightarrow> JInt i)"

definition opt_str :: "string option \<Rightarrow> json" where
  "opt_str x = (case x of None \<Rightarrow> JNull | Some s \<Rightarrow> JStr s)"

text \<open>The dictionary \<^verbatim>\<open>params\<close> of lines 135 to 141.\<close>

definition upstream_params :: "plan_args \<Rightarrow> (string \<times> json) list" where
  "upstream_params a =
     (let params = [(''timeFrame'', JStr (time_frame a))];
          params = (if truthy (opt_int (target_calories a))
                    then dict_set params ''targetCalories'' (opt_int (target_calories a))
                    else params);
          params = (if truthy (opt_str (diet a))
                    then dict_set params ''diet'' (opt_str (diet a)) else params);
          params = (if truthy (opt_str (exclude a))
                    then dict_set params ''exclude'' (opt_str (exclude a)) else params)
      in params)"

text \<open>The dictionary \<^verbatim>\<open>preferences\<close>, built alike at lines 144, 194 and 259.\<close>

definition preferences_of :: "plan_args \<Rightarrow> json" where
  "preferences_of a =
     JObj [(''familySize'', opt_int (family_size a)),
           (''targetCalories'', opt_int (target_calories a)),
           (''diet'', opt_str (diet a)),
           (''exclude'', opt_str (exclude a)),
           (''eventDate'', opt_str (event_date a))]"

definition generate_meal_plan_internal ::
  "runtime \<Rightarrow> world \<Rightarrow> plan_args \<Rightarrow> (py_error + json \<times> string \<times> json) \<times> world" where
  "generate_meal_plan_internal rt w a =
     (case call_spoonacular rt w ''/mealplanner/generate'' (upstream_params a) of
        (Inl e, w') \<Rightarrow> (Inl e, w')
      | (Inr meal_plan, w') \<Rightarrow>
          (case format_meal_plan rt meal_plan (preferences_of a) of
             Inl e \<Rightarrow> (Inl e, w')
           | Inr doc_text \<Rightarrow> (Inr (meal_plan, doc_text, JNull), w')))"

text \<open>
  The tool \<^verbatim>\<open>generate_meal_plan\<close>. The result is the dictionary the source hands to
  \<^verbatim>\<open>json.dumps\<close>; the serialisation itself is not modelled.
\<close>

definition generate_meal_plan :: "runtime \<Rightarrow> world \<Rightarrow> plan_args \<Rightarrow> (py_error + json) \<times> world" where
  "generate_meal_plan rt w a =
     (if time_frame a \<notin> {''day'', ''week''} then
        (Inl (ValueError (''time_frame must be either '' @ quoted ''day'' @ '' or '' @ quoted ''week'')), w)
      else
        (case generate_meal_plan_internal rt w a of
           (Inl error, w') \<Rightarrow> (Inl (RuntimeError (error_str error)), w')
         | (Inr (meal_plan, doc_text, _), w') \<Rightarrow>
             (Inr (JObj [(''mealPlan'', meal_plan),
                         (''formattedText'', JStr doc_text),
                         (''document'', JNull),
                         (''preferences'', preferences_of a)]), w')))"

text \<open>
  \<^verbatim>\<open>run_cli\<close> on the parsed command line: \<^verbatim>\<open>argparse\<close> exits with status 2 on a time frame
  outside its \<^verbatim>\<open>choices\<close>. The result is the dictionary printed through \<^verbatim>\<open>json.dumps\<close>.
\<close>

definition run_cli :: "runtime \<Rightarrow> world \<Rightarrow> plan_args \<Rightarrow> (py_error + json) \<times> world" where
  "run_cli rt w args =
     (if time_frame args \<notin> set [''day'', ''week''] then (Inl (SystemExit 2), w)
      else
        (case generate_meal_plan_internal rt w args of
           (Inl e, w') \<Rightarrow> (Inl e, w')
         | (Inr (meal_plan, doc_text, document_info), w') \<Rightarrow>
             (Inr (JObj [(''mealPlan'', meal_plan),
                         (''formattedText'', JStr doc_text),
                         (''document'', document_info),
                         (''preferences'', preferences_of args)]), w')))"

section \<open>Concrete surroundings for the examples\<close>

definition example_now :: datetime where
  "example_now = \<lparr>dt_year = 2026, dt_month = 11, dt_day = 4, dt_hour = 9, dt_minute = 30,
     dt_second = 0, dt_microsecond = 0, dt_utcoffset = None\<rparr>"

definition example_response :: response where
  "example_response = \<lparr>status_code = 200, status_message = [], body_json = Inr (JObj [])\<rparr>"

text \<open>A stand-in for \<^verbatim>\<open>datetime.fromisoformat\<close> that reads one date and rejects every
  other text.\<close>

definition example_fromisoformat :: "string \<Rightarrow> datetime option" where
  "example_fromisoformat s =
     (if s = ''2026-12-24T18:00:00+00:00''
      then Some \<lparr>dt_year = 2026, dt_month = 12, dt_day = 24, dt_hour = 18, dt_minute = 0,
             dt_second = 0, dt_microsecond = 0, dt_utcoffset = Some 0\<rparr>
      else None)"

text \<open>A stand-in for \<^verbatim>\<open>repr\<close> on a list or a dict that renders the empty ones and raises
  on every other.\<close>

definition example_repr_container :: "json \<Rightarrow> py_error + string" where
  "example_repr_container v =
     (if v = JList [] then Inr ''[]''
      else if v = JObj [] then Inr ''{}''
      else Inl (RecursionError ''maximum recursion depth exceeded''))"

definition example_runtime :: runtime where
  "example_runtime = \<lparr>rt_getenv_api_key = Some ''secret'', rt_utcnow = example_now,
     rt_fromisoformat = example_fromisoformat, rt_int_max_str_digits = 4300,
     rt_repr_container = example_repr_container,
     rt_http_get = (\<lambda>req. Got example_response)\<rparr>"

definition example_args :: plan_args where
  "example_args = \<lparr>time_frame = ''day'', target_calories = Some 2000,
     diet = Some ''vegetarian'', exclude = None, family_size = Some 4, event_date = None\<rparr>"

text \<open>Meals tagged with the days 2, 1, 1, meals tagged with the numbers 2 and 10, and a
  plan whose meal, nutrients and first grocery item lack most of their entries.\<close>

definition example_meals :: "json list" where
  "example_meals =
     [JObj [(''day'', JStr ''2''), (''title'', JStr ''Soup'')],
      JObj [(''day'', JStr ''1''), (''title'', JStr ''Rice'')],
      JObj [(''day'', JStr ''1''), (''title'', JStr ''Stew'')]]"

definition numeric_meals :: "json list" where
  "numeric_meals =
     [JObj [(''day'', JInt 2), (''title'', JStr ''Soup'')],
      JObj [(''day'', JInt 10), (''title'', JStr ''Rice'')]]"


section \<open>The report as the specification lays it out\<close>

fun is_dict :: "json \<Rightarrow> bool" where
  "is_dict (JObj kvs) = True"
| "is_dict v = False"

text \<open>The entry of a dictionary under a key, or the default when there is none.\<close>

definition value_of :: "json \<Rightarrow> string \<Rightarrow> json \<Rightarrow> json" where
  "value_of d key dflt =
     (case d of
        JObj kvs \<Rightarrow> (case map_of kvs key of None \<Rightarrow> dflt | Some v \<Rightarrow> v)
      | _ \<Rightarrow> dflt)"

text \<open>Whether a value can be converted to text, and the text it is shown as.\<close>

definition str_ok :: "(json \<Rightarrow> py_error + string) \<Rightarrow> json \<Rightarrow> bool" where
  "str_ok to_str v = (case to_str v of Inl e \<Rightarrow> False | Inr s \<Rightarrow> True)"

definition shown :: "(json \<Rightarrow> py_error + string) \<Rightarrow> json \<Rightarrow> string" where
  "shown to_str v = (case to_str v of Inl e \<Rightarrow> [] | Inr s \<Rightarrow> s)"

text \<open>
  A line that is emitted only if its entry is present (true), and left out otherwise.
\<close>

definition opt_line ::
  "(json \<Rightarrow> py_error + string) \<Rightarrow> json \<Rightarrow> string \<Rightarrow> string \<Rightarrow> string \<Rightarrow> string list" where
  "opt_line to_str d key pre suf =
     (if truthy (value_of d key JNull) then [pre @ shown to_str (value_of d key JNull) @ suf]
      else [])"

text \<open>Layout 1: title line, generation-date line, blank line.\<close>

definition report_header :: "runtime \<Rightarrow> json \<Rightarrow> string list" where
  "report_header rt preferences =
     [''WEEKLY MEAL PLAN'',
      ''Generated: ''
        @ shown (py_str rt) (readable_date rt (value_of preferences ''eventDate'' JNull)) @ nl]"

text \<open>Layouts 2 and 3: the preference lines that are present, then the rule.\<close>

definition report_preferences :: "(json \<Rightarrow> py_error + string) \<Rightarrow> json \<Rightarrow> string list" where
  "report_preferences to_str preferences =
     opt_line to_str preferences ''familySize'' ''Family Size: '' []
     @ opt_line to_str preferences ''diet'' ''Dietary Preference: '' []
     @ opt_line to_str preferences ''exclude'' ''Exclusions: '' []
     @ opt_line to_str preferences ''targetCalories'' ''Daily Calorie Target: '' []
     @ [nl @ rule50 @ nl]"

text \<open>
  Layout 4: the label of a meal is the text of its \<open>day\<close> entry (\<open>Unknown\<close> without one);
  the days are visited in ascending order of their labels, each once; within a day the
  meals keep the order of the list; a meal is its header line (\<open>Untitled Meal\<close> without a
  title), the sub-lines that are present, and an empty line.
\<close>

definition day_label :: "(json \<Rightarrow> py_error + string) \<Rightarrow> json \<Rightarrow> string" where
  "day_label to_str meal = shown to_str (value_of meal ''day'' (JStr ''Unknown''))"

definition days_in_order :: "(json \<Rightarrow> py_error + string) \<Rightarrow> json list \<Rightarrow> string list" where
  "days_in_order to_str meals = sort (remdups (map (day_label to_str) meals))"

definition meals_of_day ::
  "(json \<Rightarrow> py_error + string) \<Rightarrow> json list \<Rightarrow> string \<Rightarrow> json list" where
  "meals_of_day to_str meals day = filter (\<lambda>meal. day_label to_str meal = day) meals"

definition report_meal :: "(json \<Rightarrow> py_error + string) \<Rightarrow> json \<Rightarrow> string list" where
  "report_meal to_str meal =
     [plate @ '' '' @ shown to_str (value_of meal ''title'' (JStr ''Untitled Meal''))]
     @ opt_line to_str meal ''readyInMinutes'' ''   Ready in: '' '' minutes''
     @ opt_line to_str meal ''servings'' ''   Servings: '' []
     @ opt_line to_str meal ''id'' ''   Recipe URL: https://spoonacular.com/recipes/-'' []
     @ [[]]"

definition report_days :: "(json \<Rightarrow> py_error + string) \<Rightarrow> json list \<Rightarrow> string list" where
  "report_days to_str meals =
     concat (map (\<lambda>day. [''DAY '' @ day, rule30]
                         @ concat (map (report_meal to_str) (meals_of_day to_str meals day))
                         @ [[]])
                 (days_in_order to_str meals))"

definition report_meals :: "(json \<Rightarrow> py_error + string) \<Rightarrow> json \<Rightarrow> string list" where
  "report_meals to_str meal_plan =
     (case value_of meal_plan ''meals'' JNull of
        JList meals \<Rightarrow> report_days to_str meals
      | _ \<Rightarrow> [])"

text \<open>Layout 5: the nutrient block, each of its four fields \<open>N/A\<close> when absent.\<close>

definition report_nutrients :: "(json \<Rightarrow> py_error + string) \<Rightarrow> json \<Rightarrow> string list" where
  "report_nutrients to_str meal_plan =
     (let nutrients = value_of meal_plan ''nutrients'' JNull in
      if truthy nutrients then
        [rule50, ''NUTRITION SUMMARY'', rule30,
         ''Calories: '' @ shown to_str (value_of nutrients ''calories'' (JStr ''N/A'')),
         ''Protein: '' @ shown to_str (value_of nutrients ''protein'' (JStr ''N/A'')) @ ''g'',
         ''Fat: '' @ shown to_str (value_of nutrients ''fat'' (JStr ''N/A'')) @ ''g'',
         ''Carbohydrates: ''
           @ shown to_str (value_of nutrients ''carbohydrates'' (JStr ''N/A'')) @ ''g'']
      else [])"

text \<open>Layout 6: the grocery block, an item being its name (\<open>Unnamed Item\<close> without one)
  and its aisle in parentheses when present.\<close>

definition report_item :: "(json \<Rightarrow> py_error + string) \<Rightarrow> json \<Rightarrow> string list" where
  "report_item to_str item =
     [checkbox @ '' '' @ shown to_str (value_of item ''name'' (JStr ''Unnamed Item''))
        @ (if truthy (value_of item ''aisle'' JNull)
           then '' ('' @ shown to_str (value_of item ''aisle'' JNull) @ '')'' else [])]"

definition report_grocery :: "(json \<Rightarrow> py_error + string) \<Rightarrow> json \<Rightarrow> string list" where
  "report_grocery to_str meal_plan =
     (case value_of meal_plan ''items'' JNull of
        JList items \<Rightarrow>
          if items = [] then []
          else [nl @ rule50, ''GROCERY LIST'', rule30] @ concat (map (report_item to_str) items)
      | _ \<Rightarrow> [])"

definition report_by_spec :: "runtime \<Rightarrow> json \<Rightarrow> json \<Rightarrow> string list" where
  "report_by_spec rt meal_plan preferences =
     report_header rt preferences
     @ report_preferences (py_str rt) preferences
     @ report_meals (py_str rt) meal_plan
     @ report_nutrients (py_str rt) meal_plan
     @ report_grocery (py_str rt) meal_plan"

text \<open>
  The inputs the formatter accepts. The preferences are a dictionary; the plan is a
  dictionary whose \<open>meals\<close> entry, when a list, holds dictionaries only (any other value
  is skipped by the \<^verbatim>\<open>isinstance\<close> test), whose \<open>nutrients\<close> entry is false or a
  dictionary, and whose \<open>items\<close> entry is false or a list of dictionaries; and every value
  that is printed can be converted to text.
\<close>

definition opt_ok :: "(json \<Rightarrow> py_error + string) \<Rightarrow> json \<Rightarrow> string \<Rightarrow> bool" where
  "opt_ok to_str d key =
     (if truthy (value_of d key JNull) then str_ok to_str (value_of d key JNull) else True)"

definition prefs_ok :: "runtime \<Rightarrow> json \<Rightarrow> bool" where
  "prefs_ok rt preferences =
     (is_dict preferences
      \<and> str_ok (py_str rt) (readable_date rt (value_of preferences ''eventDate'' JNull))
      \<and> opt_ok (py_str rt) preferences ''familySize''
      \<and> opt_ok (py_str rt) preferences ''diet''
      \<and> opt_ok (py_str rt) preferences ''exclude''
      \<and> opt_ok (py_str rt) preferences ''targetCalories'')"

definition meal_ok :: "(json \<Rightarrow> py_error + string) \<Rightarrow> json \<Rightarrow> bool" where
  "meal_ok to_str meal =
     (is_dict meal
      \<and> str_ok to_str (value_of meal ''day'' (JStr ''Unknown''))
      \<and> str_ok to_str (value_of meal ''title'' (JStr ''Untitled Meal''))
      \<and> opt_ok to_str meal ''readyInMinutes''
      \<and> opt_ok to_str meal ''servings''
      \<and> opt_ok to_str meal ''id'')"

definition meals_ok :: "(json \<Rightarrow> py_error + string) \<Rightarrow> json \<Rightarrow> bool" where
  "meals_ok to_str v = (case v of JList meals \<Rightarrow> list_all (meal_ok to_str) meals | _ \<Rightarrow> True)"

definition nutrients_ok :: "(json \<Rightarrow> py_error + string) \<Rightarrow> json \<Rightarrow> bool" where
  "nutrients_ok to_str v =
     (if truthy v then
        is_dict v
        \<and> str_ok to_str (value_of v ''calories'' (JStr ''N/A''))
        \<and> str_ok to_str (value_of v ''protein'' (JStr ''N/A''))
        \<and> str_ok to_str (value_of v ''fat'' (JStr ''N/A''))
        \<and> str_ok to_str (value_of v ''carbohydrates'' (JStr ''N/A''))
      else True)"

definition item_ok :: "(json \<Rightarrow> py_error + string) \<Rightarrow> json \<Rightarrow> bool" where
  "item_ok to_str item =
     (is_dict item
      \<and> str_ok to_str (value_of item ''name'' (JStr ''Unnamed Item''))
      \<and> opt_ok to_str item ''aisle'')"

definition items_ok :: "(json \<Rightarrow> py_error + string) \<Rightarrow> json \<Rightarrow> bool" where
  "items_ok to_str v =
     (if truthy v then
        (case v of JList items \<Rightarrow> list_all (item_ok to_str) items | _ \<Rightarrow> False)
      else True)"

definition plan_ok :: "runtime \<Rightarrow> json \<Rightarrow> bool" where
  "plan_ok rt meal_plan =
     (is_dict meal_plan
      \<and> meals_ok (py_str rt) (value_of meal_plan ''meals'' JNull)
      \<and> nutrients_ok (py_str rt) (value_of meal_plan ''nutrients'' JNull)
      \<and> items_ok (py_str rt) (value_of meal_plan ''items'' JNull))"

text \<open>What a meal needs for its block of lines.\<close>

definition block_ok :: "(json \<Rightarrow> py_error + string) \<Rightarrow> json \<Rightarrow> bool" where
  "block_ok to_str meal =
     (is_dict meal
      \<and> str_ok to_str (value_of meal ''title'' (JStr ''Untitled Meal''))
      \<and> opt_ok to_str meal ''readyInMinutes'' \<and> opt_ok to_str meal ''servings''
      \<and> opt_ok to_str meal ''id'')"

lemmas example_defs = example_now_def example_response_def example_runtime_def example_args_def

lemmas spec_defs = report_by_spec_def report_header_def report_preferences_def
  report_meals_def report_days_def report_meal_def report_nutrients_def report_grocery_def
  report_item_def opt_line_def days_in_order_def meals_of_day_def day_label_def
  value_of_def shown_def readable_date_def

lemmas ok_defs = prefs_ok_def plan_ok_def meals_ok_def meal_ok_def nutrients_ok_def
  items_ok_def item_ok_def opt_ok_def str_ok_def value_of_def readable_date_def

lemmas date_defs = strftime_long_def weekday_def ymd2ord_def days_before_year_def
  days_before_month_def is_leap_def day_names_def month_names_def two_digits_def
  digit_chars_def

lemmas strip_defs = strip_def lstrip_def rstrip_def py_whitespace_def

section \<open>The API client and the upstream query\<close>

lemma call_spoonacular_sent:
  assumes "SPOONACULAR_API_KEY rt \<noteq> []"
  shows "sent (snd (call_spoonacular rt w endpoint params)) =
           sent w @ [\<lparr>req_url = SPOONACULAR_BASE_URL @ endpoint,
                      req_params = dict_set params ''apiKey'' (JStr (SPOONACULAR_API_KEY rt)),
                      req_timeout = 30\<rparr>]"
  using assms
  by (simp add: call_spoonacular_def Let_def split: http_outcome.splits sum.splits)

lemma internal_world:
  "snd (generate_meal_plan_internal rt w a) =
     snd (call_spoonacular rt w ''/mealplanner/generate'' (upstream_params a))"
  by (simp add: generate_meal_plan_internal_def split: prod.splits sum.splits)

text \<open>
  Claim C1. Whatever the preferences, the query dictionary holds the time frame under
  \<open>timeFrame\<close>; it holds \<open>targetCalories\<close>, \<open>diet\<close> and \<open>exclude\<close> only for a
  preference that is given (and then with the caller's value, which is neither zero nor
  the empty string); it has no other key, so the family size is never in it; and with a
  credential configured the one request issued carries exactly this dictionary plus the
  credential.
\<close>

theorem upstream_query_contents:
  "map_of (upstream_params a) ''timeFrame'' = Some (JStr (time_frame a))
   \<and> map_of (upstream_params a) ''targetCalories'' =
       (case target_calories a of None \<Rightarrow> None
        | Some c \<Rightarrow> if c = 0 then None else Some (JInt c))
   \<and> map_of (upstream_params a) ''diet'' =
       (case diet a of None \<Rightarrow> None | Some d \<Rightarrow> if d = [] then None else Some (JStr d))
   \<and> map_of (upstream_params a) ''exclude'' =
       (case exclude a of None \<Rightarrow> None | Some x \<Rightarrow> if x = [] then None else Some (JStr x))
   \<and> fst ` set (upstream_params a) \<subseteq> {''timeFrame'', ''targetCalories'', ''diet'', ''exclude''}
   \<and> map_of (upstream_params a) ''familySize'' = None
   \<and> (SPOONACULAR_API_KEY rt \<noteq> [] \<longrightarrow>
        sent (snd (generate_meal_plan_internal rt w a)) =
          sent w @ [\<lparr>req_url = ''https://api.spoonacular.com/mealplanner/generate'',
                     req_params = dict_set (upstream_params a) ''apiKey''
                                    (JStr (SPOONACULAR_API_KEY rt)),
                     req_timeout = 30\<rparr>])"
  by (cases "target_calories a"; cases "diet a"; cases "exclude a")
     (auto simp: upstream_params_def opt_int_def opt_str_def Let_def internal_world
        call_spoonacular_sent SPOONACULAR_BASE_URL_def)

theorem upstream_query_contents_witness:
  "SPOONACULAR_API_KEY example_runtime \<noteq> [] \<and>
   sent (snd (generate_meal_plan_internal example_runtime \<lparr>sent = []\<rparr> example_args)) =
     [\<lparr>req_url = ''https://api.spoonacular.com/mealplanner/generate'',
       req_params = [(''timeFrame'', JStr ''day''), (''targetCalories'', JInt 2000),
                     (''diet'', JStr ''vegetarian''), (''apiKey'', JStr ''secret'')],
       req_timeout = 30\<rparr>]"
  using upstream_query_contents [of example_args example_runtime "\<lparr>sent = []\<rparr>"]
  by (simp add: example_defs SPOONACULAR_API_KEY_def upstream_params_def opt_int_def opt_str_def)

text \<open>
  Claim C2. A time frame other than \<open>day\<close> and \<open>week\<close> makes the tool raise the
  \<open>ValueError\<close> of line 180 (the spec's InvalidArgument) and leaves the world as it was:
  no request has been issued.
\<close>

theorem generate_meal_plan_invalid_time_frame:
  assumes "time_frame a \<notin> {''day'', ''week''}"
  shows "generate_meal_plan rt w a =
           (Inl (ValueError (''time_frame must be either '' @ quoted ''day'' @ '' or ''
              @ quoted ''week'')), w)"
  using assms by (simp add: generate_meal_plan_def)

theorem generate_meal_plan_invalid_time_frame_witness:
  "time_frame (example_args\<lparr>time_frame := ''month''\<rparr>) \<notin> {''day'', ''week''} \<and>
   generate_meal_plan example_runtime \<lparr>sent = []\<rparr> (example_args\<lparr>time_frame := ''month''\<rparr>) =
     (Inl (ValueError (''time_frame must be either '' @ quoted ''day'' @ '' or ''
        @ quoted ''week'')), \<lparr>sent = []\<rparr>)"
  using generate_meal_plan_invalid_time_frame
    [of "example_args\<lparr>time_frame := ''month''\<rparr>" example_runtime "\<lparr>sent = []\<rparr>"]
  by simp

text \<open>
  Claim C3. With the environment variable not set, \<open>call_spoonacular\<close> raises the
  \<open>RuntimeError\<close> of line 40 (the spec's ConfigurationError) for every endpoint and every
  parameter dictionary, and the world is unchanged: no request has been issued.
\<close>

theorem call_spoonacular_no_credential:
  assumes "rt_getenv_api_key rt = None"
  shows "call_spoonacular rt w endpoint params =
           (Inl (RuntimeError ''SPOONACULAR_API_KEY environment variable is not set.''), w)"
  using assms by (simp add: call_spoonacular_def SPOONACULAR_API_KEY_def)

theorem call_spoonacular_no_credential_witness:
  "rt_getenv_api_key (example_runtime\<lparr>rt_getenv_api_key := None\<rparr>) = None \<and>
   call_spoonacular (example_runtime\<lparr>rt_getenv_api_key := None\<rparr>) \<lparr>sent = []\<rparr>
      ''/mealplanner/generate'' [(''timeFrame'', JStr ''day'')] =
     (Inl (RuntimeError ''SPOONACULAR_API_KEY environment variable is not set.''), \<lparr>sent = []\<rparr>)"
  using call_spoonacular_no_credential [of "example_runtime\<lparr>rt_getenv_api_key := None\<rparr>"]
  by simp

section \<open>The pieces of the report and the specification's layout\<close>

lemma seq_lines_Cons_Inr:
  "seq_lines (p # ps) = Inr ls \<longleftrightarrow> (\<exists>a b. p = Inr a \<and> seq_lines ps = Inr b \<and> ls = a @ b)"
  by (cases p) (auto split: sum.splits)

lemma seq_lines_map_Inr:
  assumes "\<And>x l. x \<in> set xs \<Longrightarrow> f x = Inr l \<longleftrightarrow> ok x \<and> l = g x"
  shows "seq_lines (map f xs) = Inr ls \<longleftrightarrow> list_all ok xs \<and> ls = concat (map g xs)"
  using assms
proof (induction xs arbitrary: ls)
  case Nil
  show ?case by auto
next
  case (Cons x xs)
  have head: "f x = Inr l \<longleftrightarrow> ok x \<and> l = g x" for l
    using Cons.prems by simp
  have tail: "seq_lines (map f xs) = Inr ms \<longleftrightarrow> list_all ok xs \<and> ms = concat (map g xs)" for ms
    using Cons.IH Cons.prems by simp
  show ?case
    by (auto simp: seq_lines_Cons_Inr head tail simp del: seq_lines.simps)
qed

lemma to_str_Inr: "to_str v = Inr s \<longleftrightarrow> str_ok to_str v \<and> s = shown to_str v"
  by (auto simp: str_ok_def shown_def split: sum.splits)

lemma fline_Inr:
  "fline pre (to_str v) suf = Inr ls \<longleftrightarrow> str_ok to_str v \<and> ls = [pre @ shown to_str v @ suf]"
  by (auto simp: fline_def str_ok_def shown_def split: sum.splits)

lemma py_get_Inr: "py_get d key dflt = Inr v \<longleftrightarrow> is_dict d \<and> v = value_of d key dflt"
  by (cases d) (auto simp: value_of_def)

lemma py_get_dict: "is_dict d \<Longrightarrow> py_get d key dflt = Inr (value_of d key dflt)"
  by (simp add: py_get_Inr)

lemma py_get_not_dict: "\<not> is_dict d \<Longrightarrow> \<exists>e. py_get d key dflt = Inl e"
  by (cases d) simp_all

lemma py_getitem_present:
  "is_dict d \<Longrightarrow> truthy (value_of d key JNull) \<Longrightarrow> py_getitem d key = Inr (value_of d key JNull)"
  by (cases d) (auto simp: value_of_def split: option.splits)

lemma field_line_Inr:
  "field_line to_str d key pre suf = Inr ls
     \<longleftrightarrow> is_dict d \<and> opt_ok to_str d key \<and> ls = opt_line to_str d key pre suf"
proof (cases "is_dict d")
  case True
  then show ?thesis
    by (auto simp: field_line_def py_get_dict py_getitem_present fline_Inr opt_ok_def
        opt_line_def simp del: py_get.simps py_getitem.simps)
next
  case False
  then show ?thesis
    using py_get_not_dict [OF False, of key JNull] by (auto simp: field_line_def)
qed

lemma header_lines_Inr:
  "header_lines rt preferences = Inr ls
     \<longleftrightarrow> is_dict preferences
         \<and> str_ok (py_str rt) (readable_date rt (value_of preferences ''eventDate'' JNull))
         \<and> ls = report_header rt preferences"
proof (cases "is_dict preferences")
  case True
  then show ?thesis
    by (auto simp: header_lines_def py_get_dict seq_lines_Cons_Inr fline_Inr report_header_def
        simp del: py_get.simps seq_lines.simps(2,3))
next
  case False
  then show ?thesis
    using py_get_not_dict [OF False, of "''eventDate''" JNull] by (auto simp: header_lines_def)
qed

lemma preference_lines_Inr:
  "preference_lines to_str preferences = Inr ls
     \<longleftrightarrow> is_dict preferences
         \<and> opt_ok to_str preferences ''familySize'' \<and> opt_ok to_str preferences ''diet''
         \<and> opt_ok to_str preferences ''exclude'' \<and> opt_ok to_str preferences ''targetCalories''
         \<and> ls = report_preferences to_str preferences"
  by (auto simp: preference_lines_def seq_lines_Cons_Inr field_line_Inr report_preferences_def
      simp del: seq_lines.simps(2,3))

lemma meal_block_Inr:
  "meal_block to_str meal = Inr ls
     \<longleftrightarrow> is_dict meal
         \<and> str_ok to_str (value_of meal ''title'' (JStr ''Untitled Meal''))
         \<and> opt_ok to_str meal ''readyInMinutes'' \<and> opt_ok to_str meal ''servings''
         \<and> opt_ok to_str meal ''id''
         \<and> ls = report_meal to_str meal"
proof -
  have title: "(case py_get meal ''title'' (JStr ''Untitled Meal'') of
                  Inl e \<Rightarrow> Inl e
                | Inr title \<Rightarrow> fline (plate @ '' '') (to_str title) []) = Inr l
               \<longleftrightarrow> is_dict meal \<and> str_ok to_str (value_of meal ''title'' (JStr ''Untitled Meal''))
                   \<and> l = [plate @ '' '' @ shown to_str (value_of meal ''title'' (JStr ''Untitled Meal''))]"
    for l
  proof (cases "is_dict meal")
    case True
    then show ?thesis
      by (simp add: py_get_dict fline_Inr del: py_get.simps)
  next
    case False
    then show ?thesis
      using py_get_not_dict [OF False, of "''title''" "JStr ''Untitled Meal''"] by auto
  qed
  show ?thesis
    by (auto simp: meal_block_def seq_lines_Cons_Inr title field_line_Inr report_meal_def
        simp del: seq_lines.simps(2,3))
qed

lemma nutrient_line_Inr:
  "nutrient_line to_str nutrients pre key suf = Inr ls
     \<longleftrightarrow> is_dict nutrients \<and> str_ok to_str (value_of nutrients key (JStr ''N/A''))
         \<and> ls = [pre @ shown to_str (value_of nutrients key (JStr ''N/A'')) @ suf]"
proof (cases "is_dict nutrients")
  case True
  then show ?thesis
    by (simp add: nutrient_line_def py_get_dict fline_Inr del: py_get.simps)
next
  case False
  then show ?thesis
    using py_get_not_dict [OF False, of key "JStr ''N/A''"] by (auto simp: nutrient_line_def)
qed

lemma nutrient_lines_Inr:
  "nutrient_lines to_str meal_plan = Inr ls
     \<longleftrightarrow> is_dict meal_plan \<and> nutrients_ok to_str (value_of meal_plan ''nutrients'' JNull)
         \<and> ls = report_nutrients to_str meal_plan"
proof (cases "is_dict meal_plan")
  case True
  then show ?thesis
    by (auto simp: nutrient_lines_def py_get_dict seq_lines_Cons_Inr nutrient_line_Inr
        nutrients_ok_def report_nutrients_def Let_def simp del: py_get.simps seq_lines.simps(2,3))
next
  case False
  then show ?thesis
    using py_get_not_dict [OF False, of "''nutrients''" JNull] by (auto simp: nutrient_lines_def)
qed

lemma item_line_Inr:
  "item_line to_str item = Inr ls \<longleftrightarrow> item_ok to_str item \<and> ls = report_item to_str item"
proof (cases "is_dict item")
  case True
  then show ?thesis
    by (auto simp: item_line_def py_get_dict fline_def item_ok_def opt_ok_def
        report_item_def str_ok_def shown_def simp del: py_get.simps split: sum.splits)
next
  case False
  then show ?thesis
    using py_get_not_dict [OF False, of "''name''" "JStr ''Unnamed Item''"]
    by (auto simp: item_line_def item_ok_def)
qed

lemma grocery_block_Inr:
  "seq_lines (Inr hd_lines # map (item_line to_str) items) = Inr ls
     \<longleftrightarrow> list_all (item_ok to_str) items
         \<and> ls = hd_lines @ concat (map (report_item to_str) items)"
proof -
  have "seq_lines (map (item_line to_str) items) = Inr ms
          \<longleftrightarrow> list_all (item_ok to_str) items \<and> ms = concat (map (report_item to_str) items)"
    for ms
    by (rule seq_lines_map_Inr) (rule item_line_Inr)
  then show ?thesis
    by (auto simp: seq_lines_Cons_Inr simp del: seq_lines.simps)
qed

lemma utf8_chars_empty_iff: "utf8_chars s = [] \<longleftrightarrow> s = []"
  by (cases s) simp_all

lemma grocery_lines_Inr:
  "grocery_lines to_str meal_plan = Inr ls
     \<longleftrightarrow> is_dict meal_plan \<and> items_ok to_str (value_of meal_plan ''items'' JNull)
         \<and> ls = report_grocery to_str meal_plan"
proof (cases "is_dict meal_plan")
  case False
  then show ?thesis
    using py_get_not_dict [OF False, of "''items''" JNull] by (auto simp: grocery_lines_def)
next
  case dict: True
  define items where "items = value_of meal_plan ''items'' JNull"
  have unfold: "grocery_lines to_str meal_plan =
      (if truthy items then
         (case py_iter items of
            Inl e \<Rightarrow> Inl e
          | Inr xs \<Rightarrow>
              seq_lines (Inr [nl @ rule50, ''GROCERY LIST'', rule30] # map (item_line to_str) xs))
       else Inr [])"
    using dict by (simp add: grocery_lines_def py_get_dict items_def del: py_get.simps)
  have spec: "report_grocery to_str meal_plan =
      (case items of
         JList xs \<Rightarrow> if xs = [] then []
                     else [nl @ rule50, ''GROCERY LIST'', rule30] @ concat (map (report_item to_str) xs)
       | _ \<Rightarrow> [])"
    by (simp add: report_grocery_def items_def)
  show ?thesis
  proof (cases "truthy items")
    case False
    then show ?thesis
      using dict unfolding unfold spec items_ok_def items_def [symmetric]
      by (cases items) auto
  next
    case True
    show ?thesis
    proof (cases items)
      case (JList xs)
      with True dict show ?thesis
        unfolding unfold spec items_ok_def items_def [symmetric]
        by (auto simp: grocery_block_Inr simp del: seq_lines.simps)
    next
      case (JStr s)
      with True have "\<not> list_all (item_ok to_str) (map JStr (utf8_chars s))"
        by (cases s) (simp_all add: item_ok_def)
      with True JStr dict show ?thesis
        unfolding unfold spec items_ok_def items_def [symmetric]
        by (simp add: grocery_block_Inr del: seq_lines.simps map_map list.map_comp)
    next
      case (JObj kvs)
      with True have "\<not> list_all (item_ok to_str) (map (\<lambda>kv. JStr (fst kv)) kvs)"
        by (cases kvs) (simp_all add: item_ok_def)
      with True JObj dict show ?thesis
        unfolding unfold spec items_ok_def items_def [symmetric]
        by (simp add: grocery_block_Inr del: seq_lines.simps map_map list.map_comp)
    qed (use True dict in \<open>simp_all add: unfold spec items_ok_def items_def [symmetric]\<close>)
  qed
qed

section \<open>Grouping by day\<close>

lemma map_of_setdefault_append:
  "map_of (setdefault_append d m g) k =
     (if k = d then Some ((case map_of g d of None \<Rightarrow> [] | Some xs \<Rightarrow> xs) @ [m])
      else map_of g k)"
  by (induction g) auto

lemma keys_setdefault_append:
  "fst ` set (setdefault_append d m g) = insert d (fst ` set g)"
  by (induction d m g rule: setdefault_append.induct) (simp_all add: insert_commute)

lemma distinct_setdefault_append:
  "distinct (map fst g) \<Longrightarrow> distinct (map fst (setdefault_append d m g))"
  by (induction g) (force simp: keys_setdefault_append)+

text \<open>A meal the loop of lines 80 to 82 gets past: a dictionary whose day has a text.\<close>

lemma group_meals_step:
  assumes "is_dict meal" and "str_ok to_str (value_of meal ''day'' (JStr ''Unknown''))"
  shows "group_meals to_str (meal # meals) g =
           group_meals to_str meals (setdefault_append (day_label to_str meal) meal g)"
  using assms
  by (simp add: py_get_dict day_label_def str_ok_def shown_def del: py_get.simps
      split: sum.splits)

lemma group_meals_fails:
  assumes "\<not> (is_dict meal \<and> str_ok to_str (value_of meal ''day'' (JStr ''Unknown'')))"
  shows "\<exists>e. group_meals to_str (meal # meals) g = Inl e"
proof (cases "is_dict meal")
  case True
  with assms show ?thesis
    by (simp add: py_get_dict str_ok_def del: py_get.simps split: sum.splits)
next
  case False
  then show ?thesis
    using py_get_not_dict [OF False, of "''day''" "JStr ''Unknown''"] by auto
qed

lemma group_meals_ok_iff:
  "(\<exists>g'. group_meals to_str meals g = Inr g')
     \<longleftrightarrow> list_all (\<lambda>m. is_dict m \<and> str_ok to_str (value_of m ''day'' (JStr ''Unknown''))) meals"
proof (induction meals arbitrary: g)
  case Nil
  show ?case by simp
next
  case (Cons meal meals)
  show ?case
  proof (cases "is_dict meal \<and> str_ok to_str (value_of meal ''day'' (JStr ''Unknown''))")
    case True
    then show ?thesis
      using Cons.IH by (simp add: group_meals_step del: group_meals.simps)
  next
    case False
    then show ?thesis
      using group_meals_fails [OF False, of meals g] by auto
  qed
qed

lemma group_meals_map_of:
  assumes "group_meals to_str meals g = Inr g'"
  shows "map_of g' k =
           (case map_of g k of
              Some xs \<Rightarrow> Some (xs @ meals_of_day to_str meals k)
            | None \<Rightarrow> if meals_of_day to_str meals k = [] then None
                      else Some (meals_of_day to_str meals k))"
  using assms
proof (induction meals arbitrary: g)
  case Nil
  then show ?case by (simp add: meals_of_day_def split: option.splits)
next
  case (Cons meal meals)
  have ok: "is_dict meal \<and> str_ok to_str (value_of meal ''day'' (JStr ''Unknown''))"
    using Cons.prems group_meals_fails [of meal to_str meals g] by fastforce
  with Cons.prems have
    "group_meals to_str meals (setdefault_append (day_label to_str meal) meal g) = Inr g'"
    by (simp add: group_meals_step del: group_meals.simps)
  from Cons.IH [OF this] show ?case
    by (auto simp: map_of_setdefault_append meals_of_day_def split: option.splits)
qed

lemma group_meals_keys:
  assumes "group_meals to_str meals g = Inr g'"
  shows "fst ` set g' = fst ` set g \<union> day_label to_str ` set meals"
    and "distinct (map fst g) \<Longrightarrow> distinct (map fst g')"
  using assms
proof (induction meals arbitrary: g)
  case Nil
  { case 1 then show ?case by simp }
  { case 2 then show ?case by simp }
next
  case (Cons meal meals)
  { case 1
    then have ok: "is_dict meal \<and> str_ok to_str (value_of meal ''day'' (JStr ''Unknown''))"
      using group_meals_fails [of meal to_str meals g] by fastforce
    with 1 have
      "group_meals to_str meals (setdefault_append (day_label to_str meal) meal g) = Inr g'"
      by (simp add: group_meals_step del: group_meals.simps)
    from Cons.IH(1) [OF this] show ?case
      by (simp add: keys_setdefault_append) }
  { case 2
    then have ok: "is_dict meal \<and> str_ok to_str (value_of meal ''day'' (JStr ''Unknown''))"
      using group_meals_fails [of meal to_str meals g] by fastforce
    with 2 have step:
      "group_meals to_str meals (setdefault_append (day_label to_str meal) meal g) = Inr g'"
      by (simp add: group_meals_step del: group_meals.simps)
    from Cons.IH(2) [OF distinct_setdefault_append step] 2(1) show ?case
      by simp }
qed

lemma sorted_keys_grouped:
  assumes "group_meals to_str meals [] = Inr grouped"
  shows "sort (map fst grouped) = days_in_order to_str meals"
proof -
  have "set (map fst grouped) = set (remdups (map (day_label to_str) meals))"
    using group_meals_keys(1) [OF assms] by simp
  moreover have "distinct (map fst grouped)"
    using group_meals_keys(2) [OF assms] by simp
  ultimately show ?thesis
    unfolding days_in_order_def
    by (intro sorted_distinct_set_unique) simp_all
qed

lemma seq_lines_snoc_Inr:
  "seq_lines (ps @ [Inr t]) = Inr ls \<longleftrightarrow> (\<exists>a. seq_lines ps = Inr a \<and> ls = a @ t)"
proof (induction ps arbitrary: ls)
  case Nil
  show ?case by auto
next
  case (Cons p ps)
  show ?case
    by (auto simp: seq_lines_Cons_Inr Cons.IH simp del: seq_lines.simps)
qed

lemma day_block_Inr:
  assumes "group_meals to_str meals [] = Inr grouped"
    and "day \<in> set (days_in_order to_str meals)"
  shows "day_block to_str grouped day = Inr ls
           \<longleftrightarrow> list_all (block_ok to_str) (meals_of_day to_str meals day)
               \<and> ls = [''DAY '' @ day, rule30]
                        @ concat (map (report_meal to_str) (meals_of_day to_str meals day))
                        @ [[]]"
proof -
  from assms(2) have "meals_of_day to_str meals day \<noteq> []"
    by (auto simp: days_in_order_def meals_of_day_def filter_empty_conv)
  then have "map_of grouped day = Some (meals_of_day to_str meals day)"
    using group_meals_map_of [OF assms(1), of day] by simp
  then have unfold: "day_block to_str grouped day =
      seq_lines ((Inr [''DAY '' @ day, rule30]
        # map (meal_block to_str) (meals_of_day to_str meals day)) @ [Inr [[]]])"
    by (simp add: day_block_def)
  have blocks: "seq_lines (map (meal_block to_str) (meals_of_day to_str meals day)) = Inr ms
      \<longleftrightarrow> list_all (block_ok to_str) (meals_of_day to_str meals day)
          \<and> ms = concat (map (report_meal to_str) (meals_of_day to_str meals day))" for ms
    by (rule seq_lines_map_Inr) (simp add: meal_block_Inr block_ok_def)
  show ?thesis
    unfolding unfold seq_lines_snoc_Inr seq_lines_Cons_Inr blocks by auto
qed

lemma blocks_of_all_days:
  "list_all (\<lambda>day. list_all (block_ok to_str) (meals_of_day to_str meals day))
     (days_in_order to_str meals)
   \<longleftrightarrow> list_all (block_ok to_str) meals"
proof
  assume days: "list_all (\<lambda>day. list_all (block_ok to_str) (meals_of_day to_str meals day))
     (days_in_order to_str meals)"
  show "list_all (block_ok to_str) meals"
    unfolding list_all_iff
  proof
    fix m assume m: "m \<in> set meals"
    then have "day_label to_str m \<in> set (days_in_order to_str meals)"
      by (simp add: days_in_order_def)
    with days have "list_all (block_ok to_str) (meals_of_day to_str meals (day_label to_str m))"
      by (simp add: list_all_iff)
    moreover from m have "m \<in> set (meals_of_day to_str meals (day_label to_str m))"
      by (simp add: meals_of_day_def)
    ultimately show "block_ok to_str m"
      by (simp add: list_all_iff)
  qed
next
  assume "list_all (block_ok to_str) meals"
  then show "list_all (\<lambda>day. list_all (block_ok to_str) (meals_of_day to_str meals day))
     (days_in_order to_str meals)"
    by (simp add: list_all_iff meals_of_day_def)
qed

lemma grouped_lines_Inr:
  assumes "group_meals to_str meals [] = Inr grouped"
  shows "seq_lines (map (day_block to_str grouped) (sort (map fst grouped))) = Inr ls
           \<longleftrightarrow> list_all (block_ok to_str) meals \<and> ls = report_days to_str meals"
proof -
  have "seq_lines (map (day_block to_str grouped) (days_in_order to_str meals)) = Inr ls
      \<longleftrightarrow> list_all (\<lambda>day. list_all (block_ok to_str) (meals_of_day to_str meals day))
            (days_in_order to_str meals)
          \<and> ls = concat (map (\<lambda>day. [''DAY '' @ day, rule30]
                         @ concat (map (report_meal to_str) (meals_of_day to_str meals day))
                         @ [[]])
                 (days_in_order to_str meals))"
    by (rule seq_lines_map_Inr) (rule day_block_Inr [OF assms])
  then show ?thesis
    by (simp only: sorted_keys_grouped [OF assms] blocks_of_all_days report_days_def)
qed

lemma meal_lines_Inr:
  "meal_lines to_str meal_plan = Inr ls
     \<longleftrightarrow> is_dict meal_plan \<and> meals_ok to_str (value_of meal_plan ''meals'' JNull)
         \<and> ls = report_meals to_str meal_plan"
proof (cases "is_dict meal_plan")
  case False
  then show ?thesis
    using py_get_not_dict [OF False, of "''meals''" JNull] by (auto simp: meal_lines_def)
next
  case dict: True
  show ?thesis
  proof (cases "value_of meal_plan ''meals'' JNull")
    case (JList meals)
    have unfold: "meal_lines to_str meal_plan =
        (case group_meals to_str meals [] of
           Inl e \<Rightarrow> Inl e
         | Inr grouped \<Rightarrow> seq_lines (map (day_block to_str grouped) (sort (map fst grouped))))"
      using dict JList by (simp add: meal_lines_def py_get_dict del: py_get.simps)
    have all: "list_all (meal_ok to_str) meals
        \<longleftrightarrow> list_all (\<lambda>m. is_dict m \<and> str_ok to_str (value_of m ''day'' (JStr ''Unknown''))) meals
            \<and> list_all (block_ok to_str) meals"
      by (auto simp: list_all_iff meal_ok_def block_ok_def)
    show ?thesis
    proof (cases "group_meals to_str meals []")
      case (Inl e)
      then have "\<not> list_all (\<lambda>m. is_dict m \<and> str_ok to_str (value_of m ''day'' (JStr ''Unknown''))) meals"
        using group_meals_ok_iff [of to_str meals "[]"] by auto
      with Inl dict JList show ?thesis
        by (simp add: unfold meals_ok_def all)
    next
      case (Inr grouped)
      then have "list_all (\<lambda>m. is_dict m \<and> str_ok to_str (value_of m ''day'' (JStr ''Unknown''))) meals"
        using group_meals_ok_iff [of to_str meals "[]"] by auto
      with Inr dict JList grouped_lines_Inr [OF Inr, of ls] show ?thesis
        by (simp add: unfold meals_ok_def all report_meals_def)
    qed
  qed (use dict in \<open>auto simp: meal_lines_def py_get_dict meals_ok_def report_meals_def
         simp del: py_get.simps\<close>)
qed

section \<open>The report and the formatter\<close>

lemma report_lines_Inr:
  "report_lines rt meal_plan preferences = Inr ls
     \<longleftrightarrow> prefs_ok rt preferences \<and> plan_ok rt meal_plan
         \<and> ls = report_by_spec rt meal_plan preferences"
  by (auto simp: report_lines_def seq_lines_Cons_Inr header_lines_Inr preference_lines_Inr
      meal_lines_Inr nutrient_lines_Inr grocery_lines_Inr prefs_ok_def plan_ok_def
      report_by_spec_def simp del: seq_lines.simps(2,3))

lemma format_meal_plan_Inr:
  "format_meal_plan rt meal_plan preferences = Inr out
     \<longleftrightarrow> prefs_ok rt preferences \<and> plan_ok rt meal_plan
         \<and> out = strip (join nl (report_by_spec rt meal_plan preferences))"
proof (cases "report_lines rt meal_plan preferences")
  case (Inl e)
  then show ?thesis
    using report_lines_Inr [of rt meal_plan preferences] by (auto simp: format_meal_plan_def)
next
  case (Inr ls)
  then show ?thesis
    using report_lines_Inr [of rt meal_plan preferences ls] by (auto simp: format_meal_plan_def)
qed

section \<open>Joining and stripping\<close>









section \<open>Totality of the formatter\<close>


lemma empty_prefs_ok: "prefs_ok rt (JObj [])"
  by (simp add: ok_defs)





section \<open>The day groups in the formatter's text\<close>

lemma days_in_order_facts:
  "sorted (days_in_order to_str meals) \<and> distinct (days_in_order to_str meals)
   \<and> set (days_in_order to_str meals) = day_label to_str ` set meals"
  by (simp add: days_in_order_def)

text \<open>
  Claim C5, as amended. For accepted preferences and an accepted plan whose \<open>meals\<close>
  entry is a list, the text the formatter returns is the header, the preference lines,
  the day groups, the nutrient block and the grocery block, joined and stripped. The day
  groups are one block per distinct day label, the labels in ascending order as texts
  (the order of \<^verbatim>\<open>sorted\<close> on \<^verbatim>\<open>str\<close>, which puts \<open>10\<close> before \<open>2\<close>), each block holding
  the meals of that label in their order in the list. Three meals tagged 2, 1, 1 give
  DAY 1 with the second and the third meal, in this order, and then DAY 2 with the first.
\<close>

theorem meals_grouped_by_day:
  "(prefs_ok rt preferences \<and> plan_ok rt meal_plan
      \<and> value_of meal_plan ''meals'' JNull = JList meals \<longrightarrow>
      format_meal_plan rt meal_plan preferences =
        Inr (strip (join nl
          (report_header rt preferences
           @ report_preferences (py_str rt) preferences
           @ report_days (py_str rt) meals
           @ report_nutrients (py_str rt) meal_plan
           @ report_grocery (py_str rt) meal_plan))))
   \<and> report_days (py_str rt) meals =
       concat (map (\<lambda>day. [''DAY '' @ day, rule30]
                      @ concat (map (report_meal (py_str rt))
                                 (filter (\<lambda>meal. day_label (py_str rt) meal = day) meals))
                      @ [[]])
                   (days_in_order (py_str rt) meals))
   \<and> sorted (days_in_order (py_str rt) meals) \<and> distinct (days_in_order (py_str rt) meals)
   \<and> set (days_in_order (py_str rt) meals) = day_label (py_str rt) ` set meals
   \<and> (value_of m1 ''day'' (JStr ''Unknown'') = JStr ''2''
        \<and> value_of m2 ''day'' (JStr ''Unknown'') = JStr ''1''
        \<and> value_of m3 ''day'' (JStr ''Unknown'') = JStr ''1'' \<longrightarrow>
        report_days (py_str rt) [m1, m2, m3] =
          [''DAY 1'', rule30] @ report_meal (py_str rt) m2 @ report_meal (py_str rt) m3 @ [[]]
          @ [''DAY 2'', rule30] @ report_meal (py_str rt) m1 @ [[]])"
proof (intro conjI impI)
  assume "prefs_ok rt preferences \<and> plan_ok rt meal_plan
      \<and> value_of meal_plan ''meals'' JNull = JList meals"
  then show "format_meal_plan rt meal_plan preferences =
        Inr (strip (join nl
          (report_header rt preferences
           @ report_preferences (py_str rt) preferences
           @ report_days (py_str rt) meals
           @ report_nutrients (py_str rt) meal_plan
           @ report_grocery (py_str rt) meal_plan)))"
    by (simp add: format_meal_plan_Inr report_by_spec_def report_meals_def)
next
  assume "value_of m1 ''day'' (JStr ''Unknown'') = JStr ''2''
        \<and> value_of m2 ''day'' (JStr ''Unknown'') = JStr ''1''
        \<and> value_of m3 ''day'' (JStr ''Unknown'') = JStr ''1''"
  then show "report_days (py_str rt) [m1, m2, m3] =
          [''DAY 1'', rule30] @ report_meal (py_str rt) m2 @ report_meal (py_str rt) m3 @ [[]]
          @ [''DAY 2'', rule30] @ report_meal (py_str rt) m1 @ [[]]"
    by (simp add: report_days_def days_in_order_def meals_of_day_def day_label_def shown_def)
qed (simp_all add: report_days_def meals_of_day_def days_in_order_def)

theorem meals_grouped_by_day_witness:
  "prefs_ok example_runtime (JObj [])
   \<and> plan_ok example_runtime (JObj [(''meals'', JList example_meals)])
   \<and> value_of (JObj [(''meals'', JList example_meals)]) ''meals'' JNull = JList example_meals
   \<and> format_meal_plan example_runtime (JObj [(''meals'', JList example_meals)]) (JObj []) =
       Inr (''WEEKLY MEAL PLAN'' @ nl @ ''Generated: Wednesday, November 04 2026'' @ nl @ nl
            @ nl @ rule50 @ nl @ nl
            @ ''DAY 1'' @ nl @ rule30 @ nl @ plate @ '' Rice'' @ nl @ nl
            @ plate @ '' Stew'' @ nl @ nl @ nl
            @ ''DAY 2'' @ nl @ rule30 @ nl @ plate @ '' Soup'')"
proof -
  have p: "prefs_ok example_runtime (JObj [])"
    by (rule empty_prefs_ok)
  have q: "plan_ok example_runtime (JObj [(''meals'', JList example_meals)])"
    by (simp add: ok_defs example_meals_def)
  have v: "value_of (JObj [(''meals'', JList example_meals)]) ''meals'' JNull
             = JList example_meals"
    by (simp add: value_of_def)
  have "strip (join nl
          (report_header example_runtime (JObj [])
           @ report_preferences (py_str example_runtime) (JObj [])
           @ report_days (py_str example_runtime) example_meals
           @ report_nutrients (py_str example_runtime) (JObj [(''meals'', JList example_meals)])
           @ report_grocery (py_str example_runtime) (JObj [(''meals'', JList example_meals)])))
        = ''WEEKLY MEAL PLAN'' @ nl @ ''Generated: Wednesday, November 04 2026'' @ nl @ nl
            @ nl @ rule50 @ nl @ nl
            @ ''DAY 1'' @ nl @ rule30 @ nl @ plate @ '' Rice'' @ nl @ nl
            @ plate @ '' Stew'' @ nl @ nl @ nl
            @ ''DAY 2'' @ nl @ rule30 @ nl @ plate @ '' Soup''"
    by (simp add: spec_defs example_meals_def example_defs date_defs nl_def rule50_def
        rule30_def plate_def strip_defs)
  with meals_grouped_by_day [of example_runtime "JObj []"
      "JObj [(''meals'', JList example_meals)]" example_meals] p q v
  show ?thesis
    by simp
qed

text \<open>
  Claim C5 as stated fails where the labels are numbers: for the days 2 and 10 the
  formatter's text has DAY 10 before DAY 2, which is not their numeric order.
\<close>

theorem numeric_days_counterexample:
  "format_meal_plan example_runtime (JObj [(''meals'', JList numeric_meals)]) (JObj []) =
     Inr (''WEEKLY MEAL PLAN'' @ nl @ ''Generated: Wednesday, November 04 2026'' @ nl @ nl
          @ nl @ rule50 @ nl @ nl
          @ ''DAY 10'' @ nl @ rule30 @ nl @ plate @ '' Rice'' @ nl @ nl @ nl
          @ ''DAY 2'' @ nl @ rule30 @ nl @ plate @ '' Soup'')
   \<and> (2 :: int) < 10"
proof -
  have "plan_ok example_runtime (JObj [(''meals'', JList numeric_meals)])"
    by (simp add: ok_defs numeric_meals_def example_defs str_int_def digit_chars_def)
  moreover have "strip (join nl (report_by_spec example_runtime
                    (JObj [(''meals'', JList numeric_meals)]) (JObj [])))
        = ''WEEKLY MEAL PLAN'' @ nl @ ''Generated: Wednesday, November 04 2026'' @ nl @ nl
          @ nl @ rule50 @ nl @ nl
          @ ''DAY 10'' @ nl @ rule30 @ nl @ plate @ '' Rice'' @ nl @ nl @ nl
          @ ''DAY 2'' @ nl @ rule30 @ nl @ plate @ '' Soup''"
    by (simp add: spec_defs numeric_meals_def example_defs date_defs str_int_def decimal_def
        nl_def rule50_def rule30_def plate_def strip_defs)
  ultimately show ?thesis
    by (simp add: format_meal_plan_Inr empty_prefs_ok)
qed

section \<open>The generated-date line\<close>






section \<open>Determinism of the formatter\<close>






lemma example_prefs_ok:
  "rt_int_max_str_digits rt = 4300 \<Longrightarrow> prefs_ok rt (preferences_of example_args)"
  by (simp add: ok_defs preferences_of_def opt_int_def opt_str_def example_args_def
      str_int_def digit_chars_def)

lemma example_format:
  "format_meal_plan example_runtime (JObj []) (preferences_of example_args) =
     Inr (''WEEKLY MEAL PLAN'' @ nl @ ''Generated: Wednesday, November 04 2026'' @ nl @ nl
          @ ''Family Size: 4'' @ nl @ ''Dietary Preference: vegetarian'' @ nl
          @ ''Daily Calorie Target: 2000'' @ nl @ nl @ rule50)"
proof -
  have "strip (join nl (report_by_spec example_runtime (JObj []) (preferences_of example_args))) =
     ''WEEKLY MEAL PLAN'' @ nl @ ''Generated: Wednesday, November 04 2026'' @ nl @ nl
          @ ''Family Size: 4'' @ nl @ ''Dietary Preference: vegetarian'' @ nl
          @ ''Daily Calorie Target: 2000'' @ nl @ nl @ rule50"
    by (simp add: spec_defs preferences_of_def opt_int_def opt_str_def example_defs date_defs
        str_int_def decimal_def nl_def rule50_def strip_defs)
  then show ?thesis
    by (simp add: format_meal_plan_Inr example_prefs_ok example_runtime_def plan_ok_def
        meals_ok_def nutrients_ok_def items_ok_def value_of_def)
qed



section \<open>The response envelope\<close>

lemma internal_document:
  assumes "generate_meal_plan_internal rt w a = (Inr (meal_plan, doc_text, document_info), w')"
  shows "document_info = JNull"
  using assms
  by (auto simp: generate_meal_plan_internal_def split: prod.splits sum.splits)

lemma generate_meal_plan_envelope:
  assumes "generate_meal_plan rt w a = (Inr env, w')"
  shows "\<exists>meal_plan doc_text.
           env = JObj [(''mealPlan'', meal_plan), (''formattedText'', JStr doc_text),
                       (''document'', JNull), (''preferences'', preferences_of a)]"
  using assms
  by (auto simp: generate_meal_plan_def split: if_splits prod.splits sum.splits)

lemma run_cli_envelope:
  assumes "run_cli rt w a = (Inr env, w')"
  shows "\<exists>meal_plan doc_text.
           env = JObj [(''mealPlan'', meal_plan), (''formattedText'', JStr doc_text),
                       (''document'', JNull), (''preferences'', preferences_of a)]"
  using assms
  by (auto simp: run_cli_def split: if_splits prod.splits sum.splits dest: internal_document)

lemma example_internal:
  "generate_meal_plan_internal example_runtime \<lparr>sent = []\<rparr> example_args =
     (Inr (JObj [], ''WEEKLY MEAL PLAN'' @ nl @ ''Generated: Wednesday, November 04 2026'' @ nl @ nl
          @ ''Family Size: 4'' @ nl @ ''Dietary Preference: vegetarian'' @ nl
          @ ''Daily Calorie Target: 2000'' @ nl @ nl @ rule50, JNull),
      \<lparr>sent = [\<lparr>req_url = ''https://api.spoonacular.com/mealplanner/generate'',
       req_params = [(''timeFrame'', JStr ''day''), (''targetCalories'', JInt 2000),
                     (''diet'', JStr ''vegetarian''), (''apiKey'', JStr ''secret'')],
       req_timeout = 30\<rparr>]\<rparr>)"
  unfolding generate_meal_plan_internal_def
  apply (simp add: call_spoonacular_def SPOONACULAR_API_KEY_def SPOONACULAR_BASE_URL_def Let_def
      upstream_params_def opt_int_def opt_str_def)
  apply (simp add: example_runtime_def example_response_def example_args_def)
  apply (simp add: opt_int_def opt_str_def
      example_format [unfolded example_runtime_def example_args_def example_response_def])
  done

lemma example_time_frame: "time_frame example_args = ''day''"
  by (simp add: example_args_def)

text \<open>
  Claim C8. Whenever the tool or the command line returns an envelope, its
  \<open>document\<close> entry is there and is null: the tool writes the literal \<^verbatim>\<open>None\<close>, the
  command line the third component of \<open>generate_meal_plan_internal\<close>, which is always
  \<^verbatim>\<open>None\<close>.
\<close>

theorem envelope_document_null:
  "(generate_meal_plan rt w a = (Inr env, w') \<longrightarrow> py_getitem env ''document'' = Inr JNull)
   \<and> (run_cli rt w a = (Inr cli_env, cli_w') \<longrightarrow> py_getitem cli_env ''document'' = Inr JNull)"
  by (auto dest!: generate_meal_plan_envelope run_cli_envelope)

theorem envelope_document_null_witness:
  "(case generate_meal_plan example_runtime \<lparr>sent = []\<rparr> example_args of
      (Inr env, w') \<Rightarrow> py_getitem env ''document'' = Inr JNull
    | (Inl e, w') \<Rightarrow> False)
   \<and> (case run_cli example_runtime \<lparr>sent = []\<rparr> example_args of
      (Inr env, w') \<Rightarrow> py_getitem env ''document'' = Inr JNull
    | (Inl e, w') \<Rightarrow> False)"
proof -
  obtain env w' where tool: "generate_meal_plan example_runtime \<lparr>sent = []\<rparr> example_args = (Inr env, w')"
    by (simp add: generate_meal_plan_def example_internal example_time_frame)
  obtain cli_env cli_w' where cli: "run_cli example_runtime \<lparr>sent = []\<rparr> example_args = (Inr cli_env, cli_w')"
    by (simp add: run_cli_def example_internal example_time_frame)
  from envelope_document_null [of example_runtime "\<lparr>sent = []\<rparr>" example_args env w' cli_env cli_w'] tool cli
  show ?thesis
    by simp
qed




end
